theory Spec2Isabelle
  imports Main "HOL-Library.AList"
begin

section \<open>Data model of easy\_thumbnails/models.py\<close>

text \<open>
  A \<open>DateTimeField\<close> value is a point on a clock; a datetime object is always
  truthy in Python, so an optional timestamp is falsy exactly when it is \<open>None\<close>.
\<close>

type_synonym timestamp = nat

text \<open>
  One row of the \<open>Source\<close> or \<open>Thumbnail\<close> table (the abstract model \<open>File\<close>
  and the foreign key of \<open>Thumbnail\<close>). A \<open>Source\<close> row has no \<open>source\<close> column:
  its \<open>source_id\<close> is \<open>None\<close>. The same record is the Python instance that the
  manager hands out and that the cache stores.
\<close>

record File =
  pk :: nat
  storage_hash :: string
  name :: string
  modified :: timestamp
  source_id :: "nat option"

record thumbnail_dimensions =
  thumbnail_id :: nat
  width :: "nat option"
  height :: "nat option"

text \<open>The three settings the module reads.\<close>

record settings =
  THUMBNAIL_CACHE :: "string option"
  THUMBNAIL_QUERYSET_CACHING :: bool
  THUMBNAIL_CACHE_DIMENSIONS :: bool

text \<open>
  A storage backend: what identifies it (the input of \<open>utils.get_storage_hash\<close>)
  and the names for which \<open>storage.exists\<close> answers true.
\<close>

record storage =
  st_ident :: string
  st_files :: "string list"

definition exists_file :: "storage \<Rightarrow> string \<Rightarrow> bool" where
  "exists_file st n = (n \<in> set (st_files st))"

text \<open>
  What the module imports from the rest of the package and from Django and does not
  define itself: \<open>version_utils.get_version\<close>, \<open>utils.get_storage_hash\<close>, and
  \<open>timezone.now\<close> (the default of the \<open>modified\<close> column). They are parameters.
\<close>

record env =
  get_version :: string
  get_storage_hash :: "storage \<Rightarrow> string"
  now :: timestamp

text \<open>
  The keyword arguments of \<open>get_file\<close>: \<open>storage_hash\<close> and \<open>name\<close> (always set
  at lines 36-37), the optional \<open>source\<close> (the primary key of the \<open>Source\<close>
  instance passed) and the optional \<open>defaults\<close> dictionary, of which only the
  \<open>modified\<close> entry is represented: \<open>None\<close> is no \<open>defaults\<close> key, \<open>Some None\<close>
  a dictionary without \<open>modified\<close>.
\<close>

record kwargs =
  kw_storage_hash :: string
  kw_name :: string
  kw_source :: "nat option"
  kw_defaults :: "timestamp option option"

datatype manager = FileManager | ThumbnailManager

datatype py_error =
    ImproperlyConfigured string
  | InvalidCacheBackendError
  | KeyError string
  | FieldError
  | DoesNotExist
  | MultipleObjectsReturned
  | CacheBackendError

text \<open>What \<open>_get_thumbnail_manager\<close> returns: the manager itself or the query set
  that joins the dimensions.\<close>

datatype queryset = Plain | SelectRelatedDimensions

text \<open>Every call the resolver makes to the cache, the store and the storage.\<close>

datatype event =
    CacheGet string
  | CacheSet string File "nat option"
  | StorageExists string
  | StoreGet queryset kwargs
  | StoreGetOrCreate kwargs
  | StoreUpdate nat timestamp

text \<open>
  The state a call runs against: the table of the manager's model, its primary-key
  sequence, the contents of the cache (key, value, timeout; timeout \<open>None\<close> never
  expires) and the log of the calls made so far.
\<close>

record world =
  rows :: "File list"
  next_pk :: nat
  cache :: "(string \<times> File \<times> nat option) list"
  trace :: "event list"

definition log :: "event \<Rightarrow> world \<Rightarrow> world" where
  "log ev w = w\<lparr>trace := trace w @ [ev]\<rparr>"

definition emitted :: "world \<Rightarrow> world \<Rightarrow> event list" where
  "emitted w w' = drop (length (trace w)) (trace w')"

fun is_cache_get :: "event \<Rightarrow> bool" where
  "is_cache_get (CacheGet k) = True"
| "is_cache_get ev = False"

fun is_cache_set :: "event \<Rightarrow> bool" where
  "is_cache_set (CacheSet k v t) = True"
| "is_cache_set ev = False"

fun is_store_update :: "event \<Rightarrow> bool" where
  "is_store_update (StoreUpdate p t) = True"
| "is_store_update ev = False"

fun is_store_write :: "event \<Rightarrow> bool" where
  "is_store_write (StoreUpdate p t) = True"
| "is_store_write (StoreGetOrCreate kw) = True"
| "is_store_write ev = False"

section \<open>The cache backend\<close>

definition cache_get :: "string \<Rightarrow> world \<Rightarrow> File option \<times> world" where
  "cache_get k w = (map_option fst (map_of (cache w) k), log (CacheGet k) w)"

definition cache_set :: "string \<Rightarrow> File \<Rightarrow> nat option \<Rightarrow> world \<Rightarrow> world" where
  "cache_set k v t w = log (CacheSet k v t) (w\<lparr>cache := AList.update k (v, t) (cache w)\<rparr>)"

section \<open>The store (the ORM calls the manager makes)\<close>

text \<open>The \<open>Source\<close> model has no \<open>source\<close> field: a lookup naming one is a
  \<open>FieldError\<close>. The lookup is by the fields of the keyword arguments;
  \<open>select_related\<close> adds a join and selects the same row.\<close>

definition field_error :: "manager \<Rightarrow> kwargs \<Rightarrow> bool" where
  "field_error mgr kw = (mgr = FileManager \<and> kw_source kw \<noteq> None)"

definition matches :: "kwargs \<Rightarrow> File \<Rightarrow> bool" where
  "matches kw r =
     (storage_hash r = kw_storage_hash kw \<and> name r = kw_name kw \<and>
      (case kw_source kw of None \<Rightarrow> True | Some s \<Rightarrow> source_id r = Some s))"

definition qs_get :: "queryset \<Rightarrow> manager \<Rightarrow> kwargs \<Rightarrow> world \<Rightarrow> (py_error + File) \<times> world" where
  "qs_get qs mgr kw w =
     (let w1 = log (StoreGet qs kw) w in
      if field_error mgr kw then (Inl FieldError, w1)
      else (case filter (matches kw) (rows w) of
              [] \<Rightarrow> (Inl DoesNotExist, w1)
            | [r] \<Rightarrow> (Inr r, w1)
            | _ \<Rightarrow> (Inl MultipleObjectsReturned, w1)))"

definition new_row :: "env \<Rightarrow> kwargs \<Rightarrow> nat \<Rightarrow> File" where
  "new_row e kw p =
     \<lparr>pk = p, storage_hash = kw_storage_hash kw, name = kw_name kw,
      modified = (case kw_defaults kw of Some (Some t) \<Rightarrow> t | _ \<Rightarrow> now e),
      source_id = kw_source kw\<rparr>"

definition get_or_create ::
  "env \<Rightarrow> manager \<Rightarrow> kwargs \<Rightarrow> world \<Rightarrow> (py_error + File \<times> bool) \<times> world" where
  "get_or_create e mgr kw w =
     (let w1 = log (StoreGetOrCreate kw) w in
      if field_error mgr kw then (Inl FieldError, w1)
      else (case filter (matches kw) (rows w) of
              [] \<Rightarrow> (let r = new_row e kw (next_pk w)
                     in (Inr (r, True), w1\<lparr>rows := rows w @ [r], next_pk := Suc (next_pk w)\<rparr>))
            | [r] \<Rightarrow> (Inr (r, False), w1)
            | _ \<Rightarrow> (Inl MultipleObjectsReturned, w1)))"

text \<open>\<open>self.filter(pk=p).update(modified=t)\<close>: one statement, touching one column of
  the rows with that key.\<close>

definition filter_update_modified :: "nat \<Rightarrow> timestamp \<Rightarrow> world \<Rightarrow> world" where
  "filter_update_modified p t w =
     log (StoreUpdate p t)
       (w\<lparr>rows := map (\<lambda>r. if pk r = p then r\<lparr>modified := t\<rparr> else r) (rows w)\<rparr>)"

section \<open>Cache keys\<close>

definition digit_char :: "nat \<Rightarrow> char" where
  "digit_char d = char_of (48 + d)"

function str_nat :: "nat \<Rightarrow> string" where
  "str_nat n = (if n < 10 then [digit_char n] else str_nat (n div 10) @ [digit_char (n mod 10)])"
  by pat_completeness auto
termination
  by (relation "measure id") auto

declare str_nat.simps [simp del]

definition get_cache_key :: "manager \<Rightarrow> env \<Rightarrow> kwargs \<Rightarrow> py_error + string" where
  "get_cache_key mgr e kw =
     (case mgr of
        FileManager \<Rightarrow>
          Inr (''easy_thumbnails:'' @ get_version e @ '':FileManager:'' @
               kw_storage_hash kw @ '':'' @ kw_name kw)
      | ThumbnailManager \<Rightarrow>
          (case kw_source kw of
             None \<Rightarrow> Inl (KeyError ''source'')
           | Some s \<Rightarrow>
               Inr (''easy_thumbnails:'' @ get_version e @ '':ThumbnailManager:'' @
                    kw_storage_hash kw @ '':'' @ kw_name kw @ '':'' @ str_nat s)))"

definition get_thumbnail_manager :: "manager \<Rightarrow> settings \<Rightarrow> queryset" where
  "get_thumbnail_manager mgr s =
     (case mgr of
        FileManager \<Rightarrow> Plain
      | ThumbnailManager \<Rightarrow>
          (if THUMBNAIL_CACHE_DIMENSIONS s then SelectRelatedDimensions else Plain))"

section \<open>The resolver: FileManager.get\_file\<close>

text \<open>\<open>settings.THUMBNAIL_CACHE and settings.THUMBNAIL_QUERYSET_CACHING\<close>: the alias is
  truthy when it is a non-empty string.\<close>

definition cache_setting_truthy :: "settings \<Rightarrow> bool" where
  "cache_setting_truthy s = (case THUMBNAIL_CACHE s of None \<Rightarrow> False | Some a \<Rightarrow> a \<noteq> [])"

definition caching_on :: "settings \<Rightarrow> bool" where
  "caching_on s = (cache_setting_truthy s \<and> THUMBNAIL_QUERYSET_CACHING s)"

text \<open>Lines 36-37.\<close>

definition update_kwargs :: "env \<Rightarrow> storage \<Rightarrow> string \<Rightarrow> kwargs \<Rightarrow> kwargs" where
  "update_kwargs e st n kw = kw\<lparr>kw_storage_hash := get_storage_hash e st, kw_name := n\<rparr>"

text \<open>How lines 40-67 end: an exception, the bare \<open>return\<close> of line 64, or an object
  and the \<open>created\<close> flag.\<close>

datatype outcome = Raise py_error | ReturnNone | Resolved File bool

text \<open>Lines 41-43: \<open>update_modified\<close> becomes the \<open>modified\<close> entry of the
  \<open>defaults\<close> dictionary, which is created when the caller gave none.\<close>

definition fold_defaults :: "timestamp option \<Rightarrow> kwargs \<Rightarrow> kwargs" where
  "fold_defaults update_modified kw =
     (case update_modified of
        None \<Rightarrow> kw
      | Some t \<Rightarrow> kw\<lparr>kw_defaults := Some (Some t)\<rparr>)"

text \<open>Lines 41-44.\<close>

definition create_branch ::
  "env \<Rightarrow> manager \<Rightarrow> timestamp option \<Rightarrow> kwargs \<Rightarrow> world \<Rightarrow> outcome \<times> world" where
  "create_branch e mgr update_modified kw w =
     (case get_or_create e mgr (fold_defaults update_modified kw) w of
        (Inl err, w1) \<Rightarrow> (Raise err, w1)
      | (Inr (obj, created), w1) \<Rightarrow> (Resolved obj created, w1))"

text \<open>Lines 66-67, reached after the \<open>try\<close> statement with an object.\<close>

definition store_in_cache :: "settings \<Rightarrow> string \<Rightarrow> File \<Rightarrow> world \<Rightarrow> world" where
  "store_in_cache s cache_key obj w =
     (if caching_on s then cache_set cache_key obj None w else w)"

text \<open>The state after line 51, when the cache is read at all.\<close>

definition after_cache_get :: "settings \<Rightarrow> string \<Rightarrow> world \<Rightarrow> world" where
  "after_cache_get s key w = (if caching_on s then log (CacheGet key) w else w)"

text \<open>Lines 46-67.\<close>

definition read_branch ::
  "settings \<Rightarrow> env \<Rightarrow> manager \<Rightarrow> storage \<Rightarrow> string \<Rightarrow> bool \<Rightarrow> string \<Rightarrow> kwargs \<Rightarrow> world
     \<Rightarrow> outcome \<times> world" where
  "read_branch s e mgr st n check_cache_miss cache_key kw w =
     (let kw1 = kw\<lparr>kw_defaults := None\<rparr>;
          (cached, w1) = (if caching_on s then cache_get cache_key w else (None, w))
      in case cached of
           Some obj \<Rightarrow> (Resolved obj False, w1)
         | None \<Rightarrow>
             (case qs_get (get_thumbnail_manager mgr s) mgr kw1 w1 of
                (Inr obj, w2) \<Rightarrow> (Resolved obj False, store_in_cache s cache_key obj w2)
              | (Inl DoesNotExist, w2) \<Rightarrow>
                  (if check_cache_miss
                   then (let w3 = log (StorageExists n) w2
                         in if exists_file st n
                            then (case get_or_create e mgr kw1 w3 of
                                    (Inl err, w4) \<Rightarrow> (Raise err, w4)
                                  | (Inr (obj, created), w4) \<Rightarrow>
                                      (Resolved obj created, store_in_cache s cache_key obj w4))
                            else (ReturnNone, w3))
                   else (ReturnNone, w2))
              | (Inl err, w2) \<Rightarrow> (Raise err, w2)))"

text \<open>Lines 40-67.\<close>

definition resolve ::
  "settings \<Rightarrow> env \<Rightarrow> manager \<Rightarrow> storage \<Rightarrow> string \<Rightarrow> bool \<Rightarrow> timestamp option \<Rightarrow> bool
     \<Rightarrow> string \<Rightarrow> kwargs \<Rightarrow> world \<Rightarrow> outcome \<times> world" where
  "resolve s e mgr st n create update_modified check_cache_miss cache_key kw w =
     (if create then create_branch e mgr update_modified kw w
      else read_branch s e mgr st n check_cache_miss cache_key kw w)"

text \<open>Lines 69-77: the object returned and the state left.\<close>

definition reconcile ::
  "settings \<Rightarrow> string \<Rightarrow> timestamp option \<Rightarrow> File \<Rightarrow> bool \<Rightarrow> world \<Rightarrow> File \<times> world" where
  "reconcile s cache_key update_modified obj created w =
     (case update_modified of
        None \<Rightarrow> (obj, w)
      | Some t \<Rightarrow>
          (if \<not> created \<and> modified obj \<noteq> t
           then (let w1 = filter_update_modified (pk obj) t w
                 in if caching_on s
                    then (let obj1 = obj\<lparr>modified := t\<rparr>
                          in (obj1, cache_set cache_key obj1 None w1))
                    else (obj, w1))
           else (obj, w)))"

text \<open>The whole of \<open>get_file\<close>: an exception, or the object returned (\<open>None\<close> for
  absent), with the state left behind.\<close>

definition get_file ::
  "settings \<Rightarrow> env \<Rightarrow> manager \<Rightarrow> storage \<Rightarrow> string \<Rightarrow> bool \<Rightarrow> timestamp option \<Rightarrow> bool
     \<Rightarrow> kwargs \<Rightarrow> world \<Rightarrow> (py_error + File option) \<times> world" where
  "get_file s e mgr st n create update_modified check_cache_miss kwargs0 w =
     (let kw = update_kwargs e st n kwargs0
      in case get_cache_key mgr e kw of
           Inl err \<Rightarrow> (Inl err, w)
         | Inr cache_key \<Rightarrow>
             (case resolve s e mgr st n create update_modified check_cache_miss cache_key kw w of
                (Raise err, w1) \<Rightarrow> (Inl err, w1)
              | (ReturnNone, w1) \<Rightarrow> (Inr None, w1)
              | (Resolved obj created, w1) \<Rightarrow>
                  (case reconcile s cache_key update_modified obj created w1 of
                     (obj1, w2) \<Rightarrow> (Inr (Some obj1), w2))))"

section \<open>Module load (lines 10-21)\<close>

text \<open>
  What Django answers at import time: whether \<open>django.core.cache\<close> can be imported,
  and what \<open>caches[alias]\<close> does for an alias: a handle, a \<open>KeyError\<close> (the
  exception the module catches at line 18), or \<open>InvalidCacheBackendError\<close>, Django's
  own answer for an alias that is not configured, a subclass of \<open>ImproperlyConfigured\<close>
  that the module lets through.
\<close>













section \<open>Deletion (the on\_delete declarations of lines 115-116 and 125-126)\<close>

datatype on_delete = CASCADE | PROTECT | DO_NOTHING

datatype delete_error = ProtectedError

definition Thumbnail_source_on_delete :: on_delete where
  "Thumbnail_source_on_delete = CASCADE"

definition ThumbnailDimensions_thumbnail_on_delete :: on_delete where
  "ThumbnailDimensions_thumbnail_on_delete = CASCADE"

record database =
  sources :: "File list"
  thumbnails :: "File list"
  dimensions :: "thumbnail_dimensions list"

text \<open>Deleting the thumbnails with the given keys: the rows referencing them follow
  the policy of \<open>ThumbnailDimensions.thumbnail\<close>.\<close>

definition delete_thumbnails :: "nat list \<Rightarrow> database \<Rightarrow> delete_error + database" where
  "delete_thumbnails ps db =
     (let referring = filter (\<lambda>d. thumbnail_id d \<in> set ps) (dimensions db);
          db1 = db\<lparr>thumbnails := filter (\<lambda>t. pk t \<notin> set ps) (thumbnails db)\<rparr>
      in case ThumbnailDimensions_thumbnail_on_delete of
           CASCADE \<Rightarrow>
             Inr (db1\<lparr>dimensions := filter (\<lambda>d. thumbnail_id d \<notin> set ps) (dimensions db)\<rparr>)
         | PROTECT \<Rightarrow> (if referring = [] then Inr db1 else Inl ProtectedError)
         | DO_NOTHING \<Rightarrow> Inr db1)"

definition delete_thumbnail :: "nat \<Rightarrow> database \<Rightarrow> delete_error + database" where
  "delete_thumbnail p db = delete_thumbnails [p] db"

text \<open>Deleting a source: the thumbnails referencing it follow the policy of
  \<open>Thumbnail.source\<close>.\<close>

definition delete_source :: "nat \<Rightarrow> database \<Rightarrow> delete_error + database" where
  "delete_source p db =
     (let referring = filter (\<lambda>t. source_id t = Some p) (thumbnails db);
          remove = (\<lambda>d. d\<lparr>sources := filter (\<lambda>r. pk r \<noteq> p) (sources d)\<rparr>)
      in case Thumbnail_source_on_delete of
           CASCADE \<Rightarrow>
             (case delete_thumbnails (map pk referring) db of
                Inl err \<Rightarrow> Inl err
              | Inr db1 \<Rightarrow> Inr (remove db1))
         | PROTECT \<Rightarrow> (if referring = [] then Inr (remove db) else Inl ProtectedError)
         | DO_NOTHING \<Rightarrow> Inr (remove db))"

section \<open>Example inputs\<close>

definition ex_settings_on :: settings where
  "ex_settings_on =
     \<lparr>THUMBNAIL_CACHE = Some ''default'', THUMBNAIL_QUERYSET_CACHING = True,
      THUMBNAIL_CACHE_DIMENSIONS = False\<rparr>"

definition ex_settings_off :: settings where
  "ex_settings_off =
     \<lparr>THUMBNAIL_CACHE = None, THUMBNAIL_QUERYSET_CACHING = True,
      THUMBNAIL_CACHE_DIMENSIONS = False\<rparr>"

definition ex_env :: env where
  "ex_env = \<lparr>get_version = ''2.8'', get_storage_hash = st_ident, now = 100\<rparr>"

definition ex_storage :: storage where
  "ex_storage = \<lparr>st_ident = ''fs'', st_files = [''img.png'']\<rparr>"

definition ex_kwargs :: kwargs where
  "ex_kwargs = \<lparr>kw_storage_hash = [], kw_name = [], kw_source = None, kw_defaults = None\<rparr>"

definition ex_row :: File where
  "ex_row = \<lparr>pk = 1, storage_hash = ''fs'', name = ''img.png'', modified = 3, source_id = None\<rparr>"

definition ex_key :: string where
  "ex_key = ''easy_thumbnails:2.8:FileManager:fs:img.png''"

text \<open>An empty table and an empty cache; one row and an empty cache; an empty table
  and a cache that still holds the row.\<close>

definition w_empty :: world where
  "w_empty = \<lparr>rows = [], next_pk = 1, cache = [], trace = []\<rparr>"

definition w_row :: world where
  "w_row = \<lparr>rows = [ex_row], next_pk = 2, cache = [], trace = []\<rparr>"

definition w_stale :: world where
  "w_stale = \<lparr>rows = [], next_pk = 2, cache = [(ex_key, ex_row, None)], trace = []\<rparr>"




text \<open>One row whose \<open>modified\<close> is 3, and a cache whose copy of it carries 9.\<close>

definition w_newer :: world where
  "w_newer =
     \<lparr>rows = [ex_row], next_pk = 2, cache = [(ex_key, ex_row\<lparr>modified := 9\<rparr>, None)],
      trace = []\<rparr>"


text \<open>One source with one thumbnail, which has its dimensions, beside a thumbnail of
  another source.\<close>

definition ex_thumbnail :: File where
  "ex_thumbnail =
     \<lparr>pk = 10, storage_hash = ''fs'', name = ''img.png.100x100.jpg'', modified = 3,
      source_id = Some 1\<rparr>"

definition ex_other_thumbnail :: File where
  "ex_other_thumbnail =
     \<lparr>pk = 11, storage_hash = ''fs'', name = ''other.png.100x100.jpg'', modified = 3,
      source_id = Some 2\<rparr>"

definition ex_database :: database where
  "ex_database =
     \<lparr>sources = [ex_row],
      thumbnails = [ex_thumbnail, ex_other_thumbnail],
      dimensions = [\<lparr>thumbnail_id = 10, width = Some 100, height = Some 100\<rparr>,
                    \<lparr>thumbnail_id = 11, width = Some 100, height = None\<rparr>]\<rparr>"

section \<open>The paths through get\_file\<close>

lemma log_sel [simp]:
  "rows (log ev w) = rows w" "next_pk (log ev w) = next_pk w"
  "cache (log ev w) = cache w" "trace (log ev w) = trace w @ [ev]"
  by (simp_all add: log_def)

lemma field_error_defaults [simp]:
  "field_error mgr (kw\<lparr>kw_defaults := d\<rparr>) = field_error mgr kw"
  "field_error mgr (fold_defaults um kw) = field_error mgr kw"
  by (simp_all add: field_error_def fold_defaults_def split: option.splits)

lemma matches_defaults [simp]:
  "matches (kw\<lparr>kw_defaults := d\<rparr>) = matches kw"
  "matches (fold_defaults um kw) = matches kw"
  by (simp_all add: matches_def fold_defaults_def fun_eq_iff split: option.splits)

text \<open>The create branch, path by path.\<close>

lemma create_field_error:
  "field_error mgr kw \<Longrightarrow>
   resolve s e mgr st n True um ccm key kw w =
     (Raise FieldError, log (StoreGetOrCreate (fold_defaults um kw)) w)"
  by (simp add: resolve_def create_branch_def get_or_create_def Let_def)

lemma create_new:
  "\<not> field_error mgr kw \<Longrightarrow> filter (matches kw) (rows w) = [] \<Longrightarrow>
   resolve s e mgr st n True um ccm key kw w =
     (Resolved (new_row e (fold_defaults um kw) (next_pk w)) True,
      (log (StoreGetOrCreate (fold_defaults um kw)) w)
        \<lparr>rows := rows w @ [new_row e (fold_defaults um kw) (next_pk w)],
         next_pk := Suc (next_pk w)\<rparr>)"
  by (simp add: resolve_def create_branch_def get_or_create_def Let_def)

lemma create_existing:
  "\<not> field_error mgr kw \<Longrightarrow> filter (matches kw) (rows w) = [r] \<Longrightarrow>
   resolve s e mgr st n True um ccm key kw w =
     (Resolved r False, log (StoreGetOrCreate (fold_defaults um kw)) w)"
  by (simp add: resolve_def create_branch_def get_or_create_def Let_def)

lemma create_multiple:
  "\<not> field_error mgr kw \<Longrightarrow> filter (matches kw) (rows w) = r1 # r2 # rs \<Longrightarrow>
   resolve s e mgr st n True um ccm key kw w =
     (Raise MultipleObjectsReturned, log (StoreGetOrCreate (fold_defaults um kw)) w)"
  by (simp add: resolve_def create_branch_def get_or_create_def Let_def)

text \<open>The read branch, path by path.\<close>

lemma after_cache_get_sel [simp]:
  "rows (after_cache_get s key w) = rows w"
  "next_pk (after_cache_get s key w) = next_pk w"
  "cache (after_cache_get s key w) = cache w"
  by (simp_all add: after_cache_get_def)

lemma read_hit:
  "caching_on s \<Longrightarrow> map_of (cache w) key = Some (obj, t) \<Longrightarrow>
   resolve s e mgr st n False um ccm key kw w = (Resolved obj False, log (CacheGet key) w)"
  by (simp add: resolve_def read_branch_def cache_get_def Let_def)

lemma read_field_error:
  "caching_on s \<longrightarrow> map_of (cache w) key = None \<Longrightarrow> field_error mgr kw \<Longrightarrow>
   resolve s e mgr st n False um ccm key kw w =
     (Raise FieldError,
      log (StoreGet (get_thumbnail_manager mgr s) (kw\<lparr>kw_defaults := None\<rparr>))
        (after_cache_get s key w))"
  by (simp add: resolve_def read_branch_def cache_get_def qs_get_def after_cache_get_def Let_def)

lemma read_found:
  "caching_on s \<longrightarrow> map_of (cache w) key = None \<Longrightarrow> \<not> field_error mgr kw \<Longrightarrow>
   filter (matches kw) (rows w) = [r] \<Longrightarrow>
   resolve s e mgr st n False um ccm key kw w =
     (Resolved r False,
      store_in_cache s key r
        (log (StoreGet (get_thumbnail_manager mgr s) (kw\<lparr>kw_defaults := None\<rparr>))
           (after_cache_get s key w)))"
  by (simp add: resolve_def read_branch_def cache_get_def qs_get_def after_cache_get_def Let_def)

lemma read_multiple:
  "caching_on s \<longrightarrow> map_of (cache w) key = None \<Longrightarrow> \<not> field_error mgr kw \<Longrightarrow>
   filter (matches kw) (rows w) = r1 # r2 # rs \<Longrightarrow>
   resolve s e mgr st n False um ccm key kw w =
     (Raise MultipleObjectsReturned,
      log (StoreGet (get_thumbnail_manager mgr s) (kw\<lparr>kw_defaults := None\<rparr>))
        (after_cache_get s key w))"
  by (simp add: resolve_def read_branch_def cache_get_def qs_get_def after_cache_get_def Let_def)

lemma read_absent:
  "caching_on s \<longrightarrow> map_of (cache w) key = None \<Longrightarrow> \<not> field_error mgr kw \<Longrightarrow>
   filter (matches kw) (rows w) = [] \<Longrightarrow> \<not> ccm \<Longrightarrow>
   resolve s e mgr st n False um ccm key kw w =
     (ReturnNone,
      log (StoreGet (get_thumbnail_manager mgr s) (kw\<lparr>kw_defaults := None\<rparr>))
        (after_cache_get s key w))"
  by (simp add: resolve_def read_branch_def cache_get_def qs_get_def after_cache_get_def Let_def)

lemma read_absent_checked:
  "caching_on s \<longrightarrow> map_of (cache w) key = None \<Longrightarrow> \<not> field_error mgr kw \<Longrightarrow>
   filter (matches kw) (rows w) = [] \<Longrightarrow> ccm \<Longrightarrow> \<not> exists_file st n \<Longrightarrow>
   resolve s e mgr st n False um ccm key kw w =
     (ReturnNone,
      log (StorageExists n)
        (log (StoreGet (get_thumbnail_manager mgr s) (kw\<lparr>kw_defaults := None\<rparr>))
           (after_cache_get s key w)))"
  by (simp add: resolve_def read_branch_def cache_get_def qs_get_def after_cache_get_def Let_def)

lemma read_created:
  "caching_on s \<longrightarrow> map_of (cache w) key = None \<Longrightarrow> \<not> field_error mgr kw \<Longrightarrow>
   filter (matches kw) (rows w) = [] \<Longrightarrow> ccm \<Longrightarrow> exists_file st n \<Longrightarrow>
   resolve s e mgr st n False um ccm key kw w =
     (Resolved (new_row e (kw\<lparr>kw_defaults := None\<rparr>) (next_pk w)) True,
      store_in_cache s key (new_row e (kw\<lparr>kw_defaults := None\<rparr>) (next_pk w))
        ((log (StoreGetOrCreate (kw\<lparr>kw_defaults := None\<rparr>))
           (log (StorageExists n)
             (log (StoreGet (get_thumbnail_manager mgr s) (kw\<lparr>kw_defaults := None\<rparr>))
               (after_cache_get s key w))))
          \<lparr>rows := rows w @ [new_row e (kw\<lparr>kw_defaults := None\<rparr>) (next_pk w)],
           next_pk := Suc (next_pk w)\<rparr>))"
  by (simp add: resolve_def read_branch_def cache_get_def qs_get_def get_or_create_def
      after_cache_get_def Let_def)


lemma list3_cases:
  obtains "xs = []" | r where "xs = [r]" | r1 r2 rs where "xs = r1 # r2 # rs"
  by (cases xs; cases "tl xs") auto

lemma cache_lookup_cases:
  obtains "caching_on s \<longrightarrow> map_of (cache w) key = None"
  | obj t where "caching_on s" "map_of (cache w) key = Some (obj, t)"
  by (cases "map_of (cache w) key") auto

lemma resolve_cases [case_names create_fe create_new create_existing create_multiple
    read_hit read_fe read_found read_multiple read_absent read_absent_checked read_created]:
  obtains "create" "field_error mgr kw"
  | "create" "\<not> field_error mgr kw" "filter (matches kw) (rows w) = []"
  | r where "create" "\<not> field_error mgr kw" "filter (matches kw) (rows w) = [r]"
  | r1 r2 rs where "create" "\<not> field_error mgr kw"
      "filter (matches kw) (rows w) = r1 # r2 # rs"
  | obj t where "\<not> create" "caching_on s" "map_of (cache w) key = Some (obj, t)"
  | "\<not> create" "caching_on s \<longrightarrow> map_of (cache w) key = None" "field_error mgr kw"
  | r where "\<not> create" "caching_on s \<longrightarrow> map_of (cache w) key = None"
      "\<not> field_error mgr kw" "filter (matches kw) (rows w) = [r]"
  | r1 r2 rs where "\<not> create" "caching_on s \<longrightarrow> map_of (cache w) key = None"
      "\<not> field_error mgr kw" "filter (matches kw) (rows w) = r1 # r2 # rs"
  | "\<not> create" "caching_on s \<longrightarrow> map_of (cache w) key = None"
      "\<not> field_error mgr kw" "filter (matches kw) (rows w) = []" "\<not> ccm"
  | "\<not> create" "caching_on s \<longrightarrow> map_of (cache w) key = None"
      "\<not> field_error mgr kw" "filter (matches kw) (rows w) = []" "ccm"
      "\<not> exists_file st n"
  | "\<not> create" "caching_on s \<longrightarrow> map_of (cache w) key = None"
      "\<not> field_error mgr kw" "filter (matches kw) (rows w) = []" "ccm" "exists_file st n"
proof (cases create)
  case True
  then show ?thesis
    using that(1-4) by (cases "filter (matches kw) (rows w)" rule: list3_cases) blast+
next
  case nc: False
  show ?thesis
  proof (cases rule: cache_lookup_cases [of s w key])
    case 2
    then show ?thesis using nc that(5) by blast
  next
    case miss: 1
    show ?thesis
    proof (cases "field_error mgr kw")
      case True
      then show ?thesis using nc miss that(6) by blast
    next
      case nfe: False
      show ?thesis
      proof (cases "filter (matches kw) (rows w)" rule: list3_cases)
        case 1
        then show ?thesis using nc miss nfe that(9-11) by blast
      next
        case 2
        then show ?thesis using nc miss nfe that(7) by blast
      next
        case 3
        then show ?thesis using nc miss nfe that(8) by blast
      qed
    qed
  qed
qed

text \<open>The whole call, from the outcome of lines 40-67.\<close>

lemma get_file_key_error:
  "get_cache_key mgr e (update_kwargs e st n kwargs0) = Inl err \<Longrightarrow>
   get_file s e mgr st n create um ccm kwargs0 w = (Inl err, w)"
  by (simp add: get_file_def)

lemma get_file_raise:
  "get_cache_key mgr e (update_kwargs e st n kwargs0) = Inr key \<Longrightarrow>
   resolve s e mgr st n create um ccm key (update_kwargs e st n kwargs0) w = (Raise err, w1) \<Longrightarrow>
   get_file s e mgr st n create um ccm kwargs0 w = (Inl err, w1)"
  by (simp add: get_file_def)

lemma get_file_none:
  "get_cache_key mgr e (update_kwargs e st n kwargs0) = Inr key \<Longrightarrow>
   resolve s e mgr st n create um ccm key (update_kwargs e st n kwargs0) w = (ReturnNone, w1) \<Longrightarrow>
   get_file s e mgr st n create um ccm kwargs0 w = (Inr None, w1)"
  by (simp add: get_file_def)

lemma get_file_resolved:
  "get_cache_key mgr e (update_kwargs e st n kwargs0) = Inr key \<Longrightarrow>
   resolve s e mgr st n create um ccm key (update_kwargs e st n kwargs0) w
     = (Resolved obj created, w1) \<Longrightarrow>
   get_file s e mgr st n create um ccm kwargs0 w =
     (Inr (Some (fst (reconcile s key um obj created w1))),
      snd (reconcile s key um obj created w1))"
  by (simp add: get_file_def split: prod.splits)

lemma reconcile_created [simp]: "reconcile s key um obj True w = (obj, w)"
  by (simp add: reconcile_def split: option.splits)

lemma reconcile_none [simp]: "reconcile s key None obj created w = (obj, w)"
  by (simp add: reconcile_def)

lemma reconcile_same [simp]: "reconcile s key (Some (modified obj)) obj created w = (obj, w)"
  by (simp add: reconcile_def)

lemma reconcile_fire:
  "modified obj \<noteq> t \<Longrightarrow>
   reconcile s key (Some t) obj False w =
     (if caching_on s
      then (obj\<lparr>modified := t\<rparr>,
            cache_set key (obj\<lparr>modified := t\<rparr>) None (filter_update_modified (pk obj) t w))
      else (obj, filter_update_modified (pk obj) t w))"
  by (simp add: reconcile_def Let_def)

lemma cache_set_sel [simp]:
  "rows (cache_set k v t w) = rows w" "next_pk (cache_set k v t w) = next_pk w"
  "cache (cache_set k v t w) = AList.update k (v, t) (cache w)"
  "trace (cache_set k v t w) = trace w @ [CacheSet k v t]"
  by (simp_all add: cache_set_def)

lemma filter_update_modified_sel [simp]:
  "rows (filter_update_modified p t w) = map (\<lambda>r. if pk r = p then r\<lparr>modified := t\<rparr> else r) (rows w)"
  "next_pk (filter_update_modified p t w) = next_pk w"
  "cache (filter_update_modified p t w) = cache w"
  "trace (filter_update_modified p t w) = trace w @ [StoreUpdate p t]"
  by (simp_all add: filter_update_modified_def)

lemma store_in_cache_sel [simp]:
  "rows (store_in_cache s k v w) = rows w" "next_pk (store_in_cache s k v w) = next_pk w"
  "cache (store_in_cache s k v w) = (if caching_on s then AList.update k (v, None) (cache w) else cache w)"
  "trace (store_in_cache s k v w) = (if caching_on s then trace w @ [CacheSet k v None] else trace w)"
  by (simp_all add: store_in_cache_def)

lemma after_cache_get_trace [simp]:
  "trace (after_cache_get s key w) = (if caching_on s then trace w @ [CacheGet key] else trace w)"
  by (simp add: after_cache_get_def)

lemmas resolve_paths = create_field_error create_new create_existing create_multiple
  read_hit read_field_error read_found read_multiple read_absent read_absent_checked read_created

text \<open>Lines 40-67 off the cache when caching is disabled.\<close>

lemma resolve_cache_off:
  assumes "\<not> caching_on s"
  shows "resolve s e mgr st n create um ccm key kw (w\<lparr>cache := c\<rparr>) =
      (fst (resolve s e mgr st n create um ccm key kw w),
       (snd (resolve s e mgr st n create um ccm key kw w))\<lparr>cache := c\<rparr>)"
proof (cases rule: resolve_cases [where create=create and mgr=mgr and kw=kw and w=w and s=s and key=key and ccm=ccm and st=st and n=n])
  case read_hit
  then show ?thesis using assms by simp
qed (use assms in \<open>simp_all add: resolve_paths log_def after_cache_get_def store_in_cache_def\<close>)

lemma resolve_cache_off_frame:
  assumes "\<not> caching_on s"
  shows "cache (snd (resolve s e mgr st n create um ccm key kw w)) = cache w
    \<and> filter (\<lambda>ev. is_cache_get ev \<or> is_cache_set ev)
         (emitted w (snd (resolve s e mgr st n create um ccm key kw w))) = []"
proof (cases rule: resolve_cases [where create=create and mgr=mgr and kw=kw and w=w and s=s and key=key and ccm=ccm and st=st and n=n])
  case read_hit
  then show ?thesis using assms by simp
qed (use assms in \<open>simp_all add: resolve_paths emitted_def\<close>)


lemma resolve_extends:
  "trace (snd (resolve s e mgr st n create um ccm key kw w)) =
     trace w @ emitted w (snd (resolve s e mgr st n create um ccm key kw w))"
proof (cases rule: resolve_cases [where create=create and mgr=mgr and kw=kw and w=w and s=s and key=key and ccm=ccm and st=st and n=n])
qed (simp_all add: resolve_paths emitted_def)

lemma reconcile_extends:
  "trace (snd (reconcile s key um obj created w)) =
     trace w @ emitted w (snd (reconcile s key um obj created w))"
  by (simp add: reconcile_def emitted_def Let_def split: option.splits)

lemma emitted_trans:
  "trace w1 = trace w @ emitted w w1 \<Longrightarrow> trace w2 = trace w1 @ emitted w1 w2 \<Longrightarrow>
   emitted w w2 = emitted w w1 @ emitted w1 w2"
  by (metis append.assoc append_eq_conv_conj emitted_def)

lemma emitted_self [simp]: "emitted w w = []"
  by (simp add: emitted_def)

lemma reconcile_cache_off:
  assumes "\<not> caching_on s"
  shows "reconcile s key um obj created (w\<lparr>cache := c\<rparr>) =
      (fst (reconcile s key um obj created w), (snd (reconcile s key um obj created w))\<lparr>cache := c\<rparr>)"
    and "cache (snd (reconcile s key um obj created w)) = cache w"
    and "filter (\<lambda>ev. is_cache_get ev \<or> is_cache_set ev)
           (emitted w (snd (reconcile s key um obj created w))) = []"
  using assms
  by (simp_all add: reconcile_def emitted_def filter_update_modified_def log_def Let_def
      split: option.splits)

lemma resolve_events:
  "list_all (\<lambda>ev. (is_cache_get ev \<longrightarrow> ev = CacheGet key \<and> \<not> create)
        \<and> (is_cache_set ev \<longrightarrow> (\<exists>v. ev = CacheSet key v None) \<and> \<not> create)
        \<and> \<not> is_store_update ev)
     (emitted w (snd (resolve s e mgr st n create um ccm key kw w)))"
proof (cases rule: resolve_cases [where create=create and mgr=mgr and kw=kw and w=w and s=s and key=key and ccm=ccm and st=st and n=n])
qed (simp_all add: resolve_paths emitted_def)

lemma reconcile_events:
  "list_all (\<lambda>ev. \<not> is_cache_get ev \<and> (is_cache_set ev \<longrightarrow> (\<exists>v. ev = CacheSet key v None)))
     (emitted w (snd (reconcile s key um obj created w)))"
  by (simp add: reconcile_def emitted_def Let_def split: option.splits)

text \<open>The events of a whole call.\<close>

lemma get_file_emitted:
  assumes "get_cache_key mgr e (update_kwargs e st n kwargs0) = Inr key"
  shows "emitted w (snd (get_file s e mgr st n create um ccm kwargs0 w)) =
     emitted w (snd (resolve s e mgr st n create um ccm key (update_kwargs e st n kwargs0) w)) @
     (case fst (resolve s e mgr st n create um ccm key (update_kwargs e st n kwargs0) w) of
        Resolved obj created \<Rightarrow>
          emitted (snd (resolve s e mgr st n create um ccm key (update_kwargs e st n kwargs0) w))
            (snd (reconcile s key um obj created
               (snd (resolve s e mgr st n create um ccm key (update_kwargs e st n kwargs0) w))))
      | _ \<Rightarrow> [])"
proof -
  let ?kw = "update_kwargs e st n kwargs0"
  obtain out w1 where r: "resolve s e mgr st n create um ccm key ?kw w = (out, w1)"
    by (cases "resolve s e mgr st n create um ccm key ?kw w")
  have ext: "trace w1 = trace w @ emitted w w1"
    using resolve_extends [where w=w and kw="?kw" and key=key and create=create and um=um
        and ccm=ccm and mgr=mgr and e=e and st=st and n=n and s=s] r by simp
  show ?thesis
  proof (cases out)
    case (Raise err)
    then show ?thesis using r assms by (simp add: get_file_raise)
  next
    case ReturnNone
    then show ?thesis using r assms by (simp add: get_file_none)
  next
    case (Resolved obj created)
    have "emitted w (snd (reconcile s key um obj created w1)) =
          emitted w w1 @ emitted w1 (snd (reconcile s key um obj created w1))"
      by (rule emitted_trans [OF ext reconcile_extends])
    then show ?thesis using r assms Resolved by (simp add: get_file_resolved)
  qed
qed

lemma get_file_cache_gets:
  assumes "get_cache_key mgr e (update_kwargs e st n kwargs0) = Inr key"
    and "ev \<in> set (emitted w (snd (get_file s e mgr st n create um ccm kwargs0 w)))"
    and "is_cache_get ev"
  shows "ev = CacheGet key \<and> \<not> create"
proof -
  let ?kw = "update_kwargs e st n kwargs0"
  let ?r = "resolve s e mgr st n create um ccm key ?kw w"
  from assms(2) get_file_emitted [OF assms(1), where w=w and s=s and create=create and um=um and ccm=ccm]
  consider "ev \<in> set (emitted w (snd ?r))"
    | obj created where "fst ?r = Resolved obj created"
        "ev \<in> set (emitted (snd ?r) (snd (reconcile s key um obj created (snd ?r))))"
    by (cases "fst ?r") auto
  then show ?thesis
  proof cases
    case 1
    then show ?thesis
      using resolve_events [where w=w and kw="?kw" and key=key and create=create and um=um
        and ccm=ccm and mgr=mgr and e=e and st=st and n=n and s=s] assms(3)
      by (auto simp: list_all_iff)
  next
    case 2
    then show ?thesis
      using reconcile_events [where w="snd ?r" and key=key and um=um and obj=obj
          and created=created and s=s] assms(3)
      by (auto simp: list_all_iff)
  qed
qed

lemma update_kwargs_version [simp]:
  "update_kwargs (e\<lparr>get_version := v\<rparr>) st n kw = update_kwargs e st n kw"
  by (simp add: update_kwargs_def)

lemma resolve_not_created:
  assumes "fst (resolve s e mgr st n create um ccm key kw w) = Resolved obj False"
  shows "rows (snd (resolve s e mgr st n create um ccm key kw w)) = rows w"
    and "next_pk (snd (resolve s e mgr st n create um ccm key kw w)) = next_pk w"
proof (atomize (full), cases rule: resolve_cases [where create=create and mgr=mgr and kw=kw and w=w and s=s and key=key and ccm=ccm and st=st and n=n])
qed (use assms in \<open>simp_all add: resolve_paths\<close>)

lemma resolve_no_store_update:
  "filter is_store_update (emitted w (snd (resolve s e mgr st n create um ccm key kw w))) = []"
  using resolve_events [where w=w and kw=kw and key=key and create=create and um=um
        and ccm=ccm and mgr=mgr and e=e and st=st and n=n and s=s]
  by (auto simp: list_all_iff filter_empty_conv)

lemma map_of_update_same: "map_of (AList.update k v al) k = Some v"
  by (simp add: update_conv')

lemma get_file_from_resolve:
  "get_cache_key mgr e (update_kwargs e st n kwargs0) = Inr key \<Longrightarrow>
   get_file s e mgr st n create um ccm kwargs0 w =
     (case resolve s e mgr st n create um ccm key (update_kwargs e st n kwargs0) w of
        (Raise err, w1) \<Rightarrow> (Inl err, w1)
      | (ReturnNone, w1) \<Rightarrow> (Inr None, w1)
      | (Resolved obj created, w1) \<Rightarrow>
          (Inr (Some (fst (reconcile s key um obj created w1))),
           snd (reconcile s key um obj created w1)))"
  by (simp add: get_file_def split: prod.splits outcome.splits)

lemma create_branch_frame:
  "cache (snd (resolve s e mgr st n True um ccm key kw w)) = cache w
   \<and> filter (\<lambda>ev. is_cache_get ev \<or> is_cache_set ev)
        (emitted w (snd (resolve s e mgr st n True um ccm key kw w))) = []"
proof (cases rule: resolve_cases [where create=True and mgr=mgr and kw=kw and w=w and s=s and key=key and ccm=ccm and st=st and n=n])
qed (simp_all add: resolve_paths emitted_def)

lemma create_branch_new_modified:
  assumes "fst (resolve s e mgr st n True (Some t) ccm key kw w) = Resolved obj True"
  shows "modified obj = t"
proof (cases rule: resolve_cases [where create=True and mgr=mgr and kw=kw and w=w and s=s and key=key and ccm=ccm and st=st and n=n])
qed (use assms in \<open>auto simp add: resolve_paths new_row_def fold_defaults_def\<close>)

lemma delete_thumbnails_ok:
  "delete_thumbnails ps db =
     Inr (db\<lparr>thumbnails := filter (\<lambda>t. pk t \<notin> set ps) (thumbnails db),
             dimensions := filter (\<lambda>d. thumbnail_id d \<notin> set ps) (dimensions db)\<rparr>)"
  by (simp add: delete_thumbnails_def ThumbnailDimensions_thumbnail_on_delete_def Let_def)

lemma filter_single: "filter P xs = [r] \<Longrightarrow> r \<in> set xs \<and> P r"
proof -
  assume a: "filter P xs = [r]"
  have "r \<in> set (filter P xs)" unfolding a by simp
  then show ?thesis by simp
qed

lemma resolve_from_store:
  assumes "fst (resolve s e mgr st n create um ccm key kw w) = Resolved obj False"
    and "create \<or> (caching_on s \<longrightarrow> map_of (cache w) key = None)"
  shows "obj \<in> set (rows w) \<and> matches kw obj"
proof (cases rule: resolve_cases [where create=create and mgr=mgr and kw=kw and w=w and s=s and key=key and ccm=ccm and st=st and n=n])
  case (create_existing r)
  then show ?thesis using assms filter_single [of "matches kw" "rows w" r]
    by (simp add: resolve_paths)
next
  case (read_found r)
  then show ?thesis using assms filter_single [of "matches kw" "rows w" r]
    by (simp add: resolve_paths)
qed (use assms in \<open>simp_all add: resolve_paths\<close>)

section \<open>Cache keys of the two managers\<close>

text \<open>
  C5. For every storage hash and name, and for every parent source id, the cache key
  of a thumbnail lookup differs from the cache key of a source lookup with the same
  storage hash and name (whatever else the two sets of keyword arguments hold).
\<close>

theorem cache_key_kinds_differ:
  "get_cache_key ThumbnailManager e
     \<lparr>kw_storage_hash = h, kw_name = n, kw_source = Some p, kw_defaults = d1\<rparr>
   \<noteq> get_cache_key FileManager e
     \<lparr>kw_storage_hash = h, kw_name = n, kw_source = src, kw_defaults = d2\<rparr>"
  by (simp add: get_cache_key_def)

text \<open>
  C6. The key of a lookup starts with the prefix and the current version tag. For two
  distinct version tags the keys of the same lookup (manager, storage hash, name and
  source) differ, and a call made under the new tag reads the cache under the new key
  only: it never reads the entry stored under the old tag's key.
\<close>

theorem schema_version_in_cache_key:
  assumes "v1 \<noteq> v2"
    and "get_cache_key mgr (e\<lparr>get_version := v1\<rparr>) (update_kwargs e st n kwargs0) = Inr k1"
    and "get_cache_key mgr (e\<lparr>get_version := v2\<rparr>) (update_kwargs e st n kwargs0) = Inr k2"
  shows "k1 \<noteq> k2
    \<and> take (length (''easy_thumbnails:'' @ v2)) k2 = ''easy_thumbnails:'' @ v2
    \<and> CacheGet k1 \<notin> set (emitted w
          (snd (get_file s (e\<lparr>get_version := v2\<rparr>) mgr st n create um ccm kwargs0 w)))
    \<and> (\<forall>k. CacheGet k \<in> set (emitted w
          (snd (get_file s (e\<lparr>get_version := v2\<rparr>) mgr st n create um ccm kwargs0 w)))
        \<longrightarrow> k = k2)"
proof -
  have ne: "k1 \<noteq> k2"
    using assms by (auto simp add: get_cache_key_def split: manager.splits option.splits)
  have k2: "get_cache_key mgr (e\<lparr>get_version := v2\<rparr>)
      (update_kwargs (e\<lparr>get_version := v2\<rparr>) st n kwargs0) = Inr k2"
    using assms(3) by simp
  have only: "k = k2" if "CacheGet k \<in> set (emitted w
          (snd (get_file s (e\<lparr>get_version := v2\<rparr>) mgr st n create um ccm kwargs0 w)))" for k
    using get_file_cache_gets [OF k2 that] by simp
  have pre: "take (length (''easy_thumbnails:'' @ v2)) k2 = ''easy_thumbnails:'' @ v2"
    using assms(3) by (auto simp add: get_cache_key_def split: manager.splits option.splits)
  from ne only pre show ?thesis by blast
qed


theorem schema_version_in_cache_key_witness:
  "''2.7'' \<noteq> ''2.8''
   \<and> get_cache_key FileManager (ex_env\<lparr>get_version := ''2.7''\<rparr>)
        (update_kwargs ex_env ex_storage ''img.png'' ex_kwargs)
       = Inr ''easy_thumbnails:2.7:FileManager:fs:img.png''
   \<and> get_cache_key FileManager (ex_env\<lparr>get_version := ''2.8''\<rparr>)
        (update_kwargs ex_env ex_storage ''img.png'' ex_kwargs) = Inr ex_key
   \<and> ''easy_thumbnails:2.7:FileManager:fs:img.png'' \<noteq> ex_key
   \<and> CacheGet ''easy_thumbnails:2.7:FileManager:fs:img.png'' \<notin> set (emitted w_row
         (snd (get_file ex_settings_on (ex_env\<lparr>get_version := ''2.8''\<rparr>) FileManager
            ex_storage ''img.png'' False None False ex_kwargs w_row)))"
proof -
  have h1: "''2.7'' \<noteq> ''2.8''" by simp
  have h2: "get_cache_key FileManager (ex_env\<lparr>get_version := ''2.7''\<rparr>)
        (update_kwargs ex_env ex_storage ''img.png'' ex_kwargs)
       = Inr ''easy_thumbnails:2.7:FileManager:fs:img.png''"
    by (simp add: get_cache_key_def update_kwargs_def ex_env_def ex_storage_def ex_kwargs_def)
  have h3: "get_cache_key FileManager (ex_env\<lparr>get_version := ''2.8''\<rparr>)
        (update_kwargs ex_env ex_storage ''img.png'' ex_kwargs) = Inr ex_key"
    by (simp add: get_cache_key_def update_kwargs_def ex_env_def ex_storage_def ex_kwargs_def
        ex_key_def)
  show ?thesis
    using h1 h2 h3 schema_version_in_cache_key [OF h1 h2 h3, where w=w_row and s=ex_settings_on
        and create=False and um=None and ccm=False]
    by simp
qed

section \<open>Modification reconciliation (lines 69-75)\<close>

text \<open>
  C1, as the code has it. In a call where \<open>update_modified\<close> is given, the record
  resolved by lines 40-67 (the cached copy on a cache hit, the stored row otherwise)
  was not created by this call and its \<open>modified\<close> differs from \<open>update_modified\<close>:
  the call issues exactly one store update, \<open>filter(pk=obj.pk).update(modified=...)\<close>,
  after which the rows are the rows before with only \<open>modified\<close> changed (keys,
  storage hashes, names and sources stay, no row is added); and when caching is enabled
  the cache entry under the key is the record with the new \<open>modified\<close>, which is also
  what the call returns. The record compared at line 70 is the resolved one: it is a row
  of the table whenever it did not come out of the cache.
\<close>

theorem modified_reconciliation:
  assumes "get_cache_key mgr e (update_kwargs e st n kwargs0) = Inr key"
    and "fst (resolve s e mgr st n create (Some t) ccm key (update_kwargs e st n kwargs0) w)
           = Resolved obj False"
    and "modified obj \<noteq> t"
  shows "filter is_store_update
           (emitted w (snd (get_file s e mgr st n create (Some t) ccm kwargs0 w)))
         = [StoreUpdate (pk obj) t]
    \<and> rows (snd (get_file s e mgr st n create (Some t) ccm kwargs0 w))
         = map (\<lambda>r. if pk r = pk obj then r\<lparr>modified := t\<rparr> else r) (rows w)
    \<and> map pk (rows (snd (get_file s e mgr st n create (Some t) ccm kwargs0 w)))
         = map pk (rows w)
    \<and> map storage_hash (rows (snd (get_file s e mgr st n create (Some t) ccm kwargs0 w)))
         = map storage_hash (rows w)
    \<and> map name (rows (snd (get_file s e mgr st n create (Some t) ccm kwargs0 w)))
         = map name (rows w)
    \<and> map source_id (rows (snd (get_file s e mgr st n create (Some t) ccm kwargs0 w)))
         = map source_id (rows w)
    \<and> next_pk (snd (get_file s e mgr st n create (Some t) ccm kwargs0 w)) = next_pk w
    \<and> (caching_on s \<longrightarrow>
          map_of (cache (snd (get_file s e mgr st n create (Some t) ccm kwargs0 w))) key
            = Some (obj\<lparr>modified := t\<rparr>, None)
          \<and> fst (get_file s e mgr st n create (Some t) ccm kwargs0 w)
            = Inr (Some (obj\<lparr>modified := t\<rparr>)))
    \<and> (create \<or> (caching_on s \<longrightarrow> map_of (cache w) key = None)
        \<longrightarrow> obj \<in> set (rows w))"
proof -
  let ?kw = "update_kwargs e st n kwargs0"
  let ?r = "resolve s e mgr st n create (Some t) ccm key ?kw w"
  have stored: "create \<or> (caching_on s \<longrightarrow> map_of (cache w) key = None)
        \<longrightarrow> obj \<in> set (rows w)"
    using resolve_from_store [OF assms(2)] by blast
  obtain w1 where r: "?r = (Resolved obj False, w1)"
    using assms(2) by (cases ?r) simp
  have fr: "rows w1 = rows w" "next_pk w1 = next_pk w"
    using resolve_not_created [OF assms(2)] r by simp_all
  have nsu: "filter is_store_update (emitted w w1) = []"
    using resolve_no_store_update [where w=w and kw="?kw" and key=key and create=create
        and um="Some t" and ccm=ccm and mgr=mgr and e=e and st=st and n=n and s=s] r by simp
  have gf: "get_file s e mgr st n create (Some t) ccm kwargs0 w =
      (if caching_on s
       then (Inr (Some (obj\<lparr>modified := t\<rparr>)),
             cache_set key (obj\<lparr>modified := t\<rparr>) None (filter_update_modified (pk obj) t w1))
       else (Inr (Some obj), filter_update_modified (pk obj) t w1))"
    using get_file_resolved [OF assms(1) r] reconcile_fire [OF assms(3)] by simp
  have em: "emitted w (snd (get_file s e mgr st n create (Some t) ccm kwargs0 w)) =
      emitted w w1 @ emitted w1 (snd (reconcile s key (Some t) obj False w1))"
    using get_file_emitted [OF assms(1), where w=w and s=s and create=create and um="Some t"
        and ccm=ccm] r by simp
  have ev: "filter is_store_update (emitted w1 (snd (reconcile s key (Some t) obj False w1)))
      = [StoreUpdate (pk obj) t]"
    using assms(3) by (simp add: reconcile_fire emitted_def)
  have a: "filter is_store_update
           (emitted w (snd (get_file s e mgr st n create (Some t) ccm kwargs0 w)))
         = [StoreUpdate (pk obj) t]"
    using em nsu ev by simp
  have b: "rows (snd (get_file s e mgr st n create (Some t) ccm kwargs0 w))
         = map (\<lambda>r. if pk r = pk obj then r\<lparr>modified := t\<rparr> else r) (rows w)"
    using gf fr by simp
  have c: "caching_on s \<longrightarrow>
          map_of (cache (snd (get_file s e mgr st n create (Some t) ccm kwargs0 w))) key
            = Some (obj\<lparr>modified := t\<rparr>, None)
          \<and> fst (get_file s e mgr st n create (Some t) ccm kwargs0 w)
            = Inr (Some (obj\<lparr>modified := t\<rparr>))"
    using gf by (simp add: map_of_update_same)
  have d: "next_pk (snd (get_file s e mgr st n create (Some t) ccm kwargs0 w)) = next_pk w"
    using gf fr by simp
  show ?thesis
    unfolding b using a c d stored by (simp add: comp_def)
qed


theorem modified_reconciliation_witness:
  "get_cache_key FileManager ex_env (update_kwargs ex_env ex_storage ''img.png'' ex_kwargs)
     = Inr ex_key
   \<and> fst (resolve ex_settings_on ex_env FileManager ex_storage ''img.png'' False (Some 9) False
        ex_key (update_kwargs ex_env ex_storage ''img.png'' ex_kwargs) w_row)
       = Resolved ex_row False
   \<and> modified ex_row \<noteq> 9
   \<and> filter is_store_update (emitted w_row (snd (get_file ex_settings_on ex_env FileManager
        ex_storage ''img.png'' False (Some 9) False ex_kwargs w_row))) = [StoreUpdate 1 9]
   \<and> rows (snd (get_file ex_settings_on ex_env FileManager ex_storage ''img.png'' False
        (Some 9) False ex_kwargs w_row)) = [ex_row\<lparr>modified := 9\<rparr>]
   \<and> map_of (cache (snd (get_file ex_settings_on ex_env FileManager ex_storage ''img.png''
        False (Some 9) False ex_kwargs w_row))) ex_key = Some (ex_row\<lparr>modified := 9\<rparr>, None)"
proof -
  have h1: "get_cache_key FileManager ex_env
      (update_kwargs ex_env ex_storage ''img.png'' ex_kwargs) = Inr ex_key"
    by (simp add: get_cache_key_def update_kwargs_def ex_env_def ex_storage_def ex_kwargs_def
        ex_key_def)
  have on: "caching_on ex_settings_on"
    by (simp add: caching_on_def cache_setting_truthy_def ex_settings_on_def)
  have nfe: "\<not> field_error FileManager (update_kwargs ex_env ex_storage ''img.png'' ex_kwargs)"
    by (simp add: field_error_def update_kwargs_def ex_kwargs_def)
  have miss: "caching_on ex_settings_on \<longrightarrow> map_of (cache w_row) ex_key = None"
    by (simp add: w_row_def)
  have found: "filter (matches (update_kwargs ex_env ex_storage ''img.png'' ex_kwargs))
      (rows w_row) = [ex_row]"
    by (simp add: matches_def update_kwargs_def ex_env_def ex_storage_def ex_kwargs_def
        w_row_def ex_row_def)
  have h2: "fst (resolve ex_settings_on ex_env FileManager ex_storage ''img.png'' False (Some 9)
        False ex_key (update_kwargs ex_env ex_storage ''img.png'' ex_kwargs) w_row)
       = Resolved ex_row False"
    by (simp add: read_found [OF miss nfe found])
  have h3: "modified ex_row \<noteq> 9" by (simp add: ex_row_def)
  have pk1: "pk ex_row = 1" by (simp add: ex_row_def)
  have rw: "rows w_row = [ex_row]" by (simp add: w_row_def)
  show ?thesis
    using h1 h2 h3 on modified_reconciliation [OF h1 h2 h3] by (simp add: pk1 rw)
qed

text \<open>
  C1 as claimed (an update whenever the stored \<open>modified\<close> differs from
  \<open>update_modified\<close>) fails on a cache hit whose copy already carries
  \<open>update_modified\<close>: the stored row has 3, the cached copy 9, the call asks for 9 and
  finds the record without creating it; line 70 compares the cached copy, no update is
  issued and the row keeps 3.
\<close>

theorem modified_reconciliation_counterexample:
  "rows w_newer = [ex_row]
   \<and> modified ex_row = 3
   \<and> fst (resolve ex_settings_on ex_env FileManager ex_storage ''img.png'' False (Some 9) False
        ex_key (update_kwargs ex_env ex_storage ''img.png'' ex_kwargs) w_newer)
       = Resolved (ex_row\<lparr>modified := 9\<rparr>) False
   \<and> fst (get_file ex_settings_on ex_env FileManager ex_storage ''img.png'' False (Some 9)
        False ex_kwargs w_newer) = Inr (Some (ex_row\<lparr>modified := 9\<rparr>))
   \<and> filter is_store_update (emitted w_newer (snd (get_file ex_settings_on ex_env FileManager
        ex_storage ''img.png'' False (Some 9) False ex_kwargs w_newer))) = []
   \<and> rows (snd (get_file ex_settings_on ex_env FileManager ex_storage ''img.png'' False
        (Some 9) False ex_kwargs w_newer)) = [ex_row]"
  by (simp add: get_file_def resolve_def read_branch_def reconcile_def get_cache_key_def
      update_kwargs_def cache_get_def emitted_def
      caching_on_def cache_setting_truthy_def log_def Let_def
      ex_settings_on_def ex_env_def ex_storage_def ex_kwargs_def ex_key_def ex_row_def
      w_newer_def)

section \<open>The read path (lines 46-67)\<close>

text \<open>
  C2, as the code has it. In a call with \<open>create=False\<close> and \<open>check_cache_miss=True\<close>
  where the cache gives nothing (caching is off, or the key has no entry), the store
  has no matching row and the storage reports that the file exists: \<open>get_or_create\<close>
  is called once and creates the row, which is appended to the table and returned; and
  lines 66-67 run after the \<open>except\<close> clause, so when caching is enabled that row is
  written into the cache under the key, with timeout \<open>None\<close>, by the only \<open>cache.set\<close>
  of the call. When caching is disabled the cache is left as it was.
\<close>

theorem storage_check_creates_and_caches:
  assumes "get_cache_key mgr e (update_kwargs e st n kwargs0) = Inr key"
    and "\<not> field_error mgr (update_kwargs e st n kwargs0)"
    and "caching_on s \<longrightarrow> map_of (cache w) key = None"
    and "filter (matches (update_kwargs e st n kwargs0)) (rows w) = []"
    and "exists_file st n"
  shows "fst (get_file s e mgr st n False um True kwargs0 w)
         = Inr (Some (new_row e ((update_kwargs e st n kwargs0)\<lparr>kw_defaults := None\<rparr>) (next_pk w)))
    \<and> rows (snd (get_file s e mgr st n False um True kwargs0 w))
         = rows w @ [new_row e ((update_kwargs e st n kwargs0)\<lparr>kw_defaults := None\<rparr>) (next_pk w)]
    \<and> filter is_store_write (emitted w (snd (get_file s e mgr st n False um True kwargs0 w)))
         = [StoreGetOrCreate ((update_kwargs e st n kwargs0)\<lparr>kw_defaults := None\<rparr>)]
    \<and> (caching_on s \<longrightarrow>
          map_of (cache (snd (get_file s e mgr st n False um True kwargs0 w))) key
            = Some (new_row e ((update_kwargs e st n kwargs0)\<lparr>kw_defaults := None\<rparr>) (next_pk w), None)
          \<and> filter is_cache_set (emitted w (snd (get_file s e mgr st n False um True kwargs0 w)))
            = [CacheSet key
                 (new_row e ((update_kwargs e st n kwargs0)\<lparr>kw_defaults := None\<rparr>) (next_pk w)) None])
    \<and> (\<not> caching_on s \<longrightarrow>
          cache (snd (get_file s e mgr st n False um True kwargs0 w)) = cache w)"
  using read_created [where ccm=True and s=s and e=e and um=um and key=key and w=w and mgr=mgr and kw="update_kwargs e st n kwargs0" and st=st and n=n, OF assms(3) assms(2) assms(4) _ assms(5)]
  by (simp add: get_file_from_resolve [OF assms(1)] emitted_def map_of_update_same)

theorem storage_check_creates_and_caches_witness:
  "get_cache_key FileManager ex_env (update_kwargs ex_env ex_storage ''img.png'' ex_kwargs)
     = Inr ex_key
   \<and> \<not> field_error FileManager (update_kwargs ex_env ex_storage ''img.png'' ex_kwargs)
   \<and> map_of (cache w_empty) ex_key = None
   \<and> filter (matches (update_kwargs ex_env ex_storage ''img.png'' ex_kwargs)) (rows w_empty) = []
   \<and> exists_file ex_storage ''img.png''
   \<and> caching_on ex_settings_on
   \<and> fst (get_file ex_settings_on ex_env FileManager ex_storage ''img.png'' False (Some 9) True
        ex_kwargs w_empty)
       = Inr (Some (new_row ex_env
           ((update_kwargs ex_env ex_storage ''img.png'' ex_kwargs)\<lparr>kw_defaults := None\<rparr>) 1))
   \<and> map_of (cache (snd (get_file ex_settings_on ex_env FileManager ex_storage ''img.png''
        False (Some 9) True ex_kwargs w_empty))) ex_key
       = Some (new_row ex_env
           ((update_kwargs ex_env ex_storage ''img.png'' ex_kwargs)\<lparr>kw_defaults := None\<rparr>) 1,
           None)"
proof -
  have h1: "get_cache_key FileManager ex_env
      (update_kwargs ex_env ex_storage ''img.png'' ex_kwargs) = Inr ex_key"
    by (simp add: get_cache_key_def update_kwargs_def ex_env_def ex_storage_def ex_kwargs_def
        ex_key_def)
  have h2: "\<not> field_error FileManager (update_kwargs ex_env ex_storage ''img.png'' ex_kwargs)"
    by (simp add: field_error_def update_kwargs_def ex_kwargs_def)
  have m: "map_of (cache w_empty) ex_key = None" by (simp add: w_empty_def)
  then have h3: "caching_on ex_settings_on \<longrightarrow> map_of (cache w_empty) ex_key = None" by simp
  have h4: "filter (matches (update_kwargs ex_env ex_storage ''img.png'' ex_kwargs))
      (rows w_empty) = []"
    by (simp add: w_empty_def)
  have h5: "exists_file ex_storage ''img.png''" by (simp add: exists_file_def ex_storage_def)
  have on: "caching_on ex_settings_on"
    by (simp add: caching_on_def cache_setting_truthy_def ex_settings_on_def)
  have np: "next_pk w_empty = 1" by (simp add: w_empty_def)
  show ?thesis
    using h1 h2 m h4 h5 on
      storage_check_creates_and_caches [OF h1 h2 h3 h4 h5, where um="Some 9"]
    by (simp add: np)
qed

text \<open>
  C2 as claimed (the record is not written into the cache at this point) fails: with
  caching enabled, an empty cache, an empty table and the file in storage, the cache
  holds the new record under the key after the call.
\<close>

theorem storage_check_creates_and_caches_counterexample:
  "map_of (cache w_empty) ex_key = None
   \<and> rows w_empty = []
   \<and> exists_file ex_storage ''img.png''
   \<and> get_cache_key FileManager ex_env (update_kwargs ex_env ex_storage ''img.png'' ex_kwargs)
       = Inr ex_key
   \<and> fst (get_file ex_settings_on ex_env FileManager ex_storage ''img.png'' False None True
        ex_kwargs w_empty)
       = Inr (Some \<lparr>pk = 1, storage_hash = ''fs'', name = ''img.png'', modified = 100,
                    source_id = None\<rparr>)
   \<and> map_of (cache (snd (get_file ex_settings_on ex_env FileManager ex_storage ''img.png''
        False None True ex_kwargs w_empty))) ex_key
       = Some (\<lparr>pk = 1, storage_hash = ''fs'', name = ''img.png'', modified = 100,
                source_id = None\<rparr>, None)"
  by (simp add: get_file_def resolve_def read_branch_def reconcile_def get_cache_key_def
      update_kwargs_def cache_get_def cache_set_def qs_get_def get_or_create_def
      store_in_cache_def new_row_def field_error_def matches_def exists_file_def
      get_thumbnail_manager_def caching_on_def cache_setting_truthy_def log_def Let_def
      ex_settings_on_def ex_env_def ex_storage_def ex_kwargs_def ex_key_def w_empty_def)

text \<open>
  C3, as the code has it. In a call with \<open>create=False\<close> and \<open>check_cache_miss=False\<close>
  against an empty table, for a lookup that is well formed for its manager, when the
  cache gives nothing (caching is off, or the key has no entry): the call returns
  \<open>None\<close> without raising, the table is still empty, no key is drawn from the sequence,
  the cache is unchanged and neither \<open>get_or_create\<close> nor \<open>update\<close> is called.
\<close>

theorem absent_on_empty_store:
  assumes "get_cache_key mgr e (update_kwargs e st n kwargs0) = Inr key"
    and "\<not> field_error mgr (update_kwargs e st n kwargs0)"
    and "caching_on s \<longrightarrow> map_of (cache w) key = None"
    and "rows w = []"
  shows "fst (get_file s e mgr st n False um False kwargs0 w) = Inr None
    \<and> rows (snd (get_file s e mgr st n False um False kwargs0 w)) = []
    \<and> next_pk (snd (get_file s e mgr st n False um False kwargs0 w)) = next_pk w
    \<and> cache (snd (get_file s e mgr st n False um False kwargs0 w)) = cache w
    \<and> filter is_store_write (emitted w (snd (get_file s e mgr st n False um False kwargs0 w)))
         = []"
proof -
  have f: "filter (matches (update_kwargs e st n kwargs0)) (rows w) = []"
    using assms(4) by simp
  show ?thesis
    using read_absent [where ccm=False and s=s and e=e and um=um and key=key and w=w and mgr=mgr and kw="update_kwargs e st n kwargs0" and st=st and n=n, OF assms(3) assms(2) f] assms(4)
    by (simp add: get_file_from_resolve [OF assms(1)] emitted_def)
qed

theorem absent_on_empty_store_witness:
  "get_cache_key FileManager ex_env (update_kwargs ex_env ex_storage ''img.png'' ex_kwargs)
     = Inr ex_key
   \<and> \<not> field_error FileManager (update_kwargs ex_env ex_storage ''img.png'' ex_kwargs)
   \<and> map_of (cache w_empty) ex_key = None
   \<and> rows w_empty = []
   \<and> fst (get_file ex_settings_on ex_env FileManager ex_storage ''img.png'' False (Some 9)
        False ex_kwargs w_empty) = Inr None
   \<and> rows (snd (get_file ex_settings_on ex_env FileManager ex_storage ''img.png'' False
        (Some 9) False ex_kwargs w_empty)) = []
   \<and> filter is_store_write (emitted w_empty (snd (get_file ex_settings_on ex_env FileManager
        ex_storage ''img.png'' False (Some 9) False ex_kwargs w_empty))) = []"
proof -
  have h1: "get_cache_key FileManager ex_env
      (update_kwargs ex_env ex_storage ''img.png'' ex_kwargs) = Inr ex_key"
    by (simp add: get_cache_key_def update_kwargs_def ex_env_def ex_storage_def ex_kwargs_def
        ex_key_def)
  have h2: "\<not> field_error FileManager (update_kwargs ex_env ex_storage ''img.png'' ex_kwargs)"
    by (simp add: field_error_def update_kwargs_def ex_kwargs_def)
  have m: "map_of (cache w_empty) ex_key = None" by (simp add: w_empty_def)
  then have h3: "caching_on ex_settings_on \<longrightarrow> map_of (cache w_empty) ex_key = None" by simp
  have h4: "rows w_empty = []" by (simp add: w_empty_def)
  show ?thesis
    using h1 h2 m h4 absent_on_empty_store [OF h1 h2 h3 h4, where um="Some 9"]
    by simp
qed

text \<open>
  C3 as claimed (every call against an empty table returns absent and writes nothing)
  fails when the cache still holds an entry under the key: the cached record is
  returned, and with an \<open>update_modified\<close> that differs an \<open>update\<close> is issued.
\<close>

theorem absent_on_empty_store_counterexample:
  "rows w_stale = []
   \<and> fst (get_file ex_settings_on ex_env FileManager ex_storage ''img.png'' False None False
        ex_kwargs w_stale) = Inr (Some ex_row)
   \<and> filter is_store_write (emitted w_stale (snd (get_file ex_settings_on ex_env FileManager
        ex_storage ''img.png'' False (Some 9) False ex_kwargs w_stale))) = [StoreUpdate 1 9]"
  by (simp add: get_file_def resolve_def read_branch_def reconcile_def get_cache_key_def
      update_kwargs_def cache_get_def cache_set_def filter_update_modified_def emitted_def
      caching_on_def cache_setting_truthy_def log_def Let_def
      ex_settings_on_def ex_env_def ex_storage_def ex_kwargs_def ex_key_def ex_row_def
      w_stale_def)


text \<open>
  C8. In a call with \<open>create=False\<close> and caching enabled that reaches the store (the
  key has no cache entry) and finds the row: \<open>cache.set(cache_key, obj, None)\<close> is
  called with the row found; every \<open>cache.set\<close> of the call is under the key with
  timeout \<open>None\<close>; after the call the entry under the key is the record returned, that
  row (with \<open>modified\<close> refreshed when lines 69-75 apply), with timeout \<open>None\<close>; and
  lines 66-67 bind the key to the record whatever the cache held before.
\<close>

theorem store_hit_written_to_cache:
  assumes "caching_on s"
    and "get_cache_key mgr e (update_kwargs e st n kwargs0) = Inr key"
    and "map_of (cache w) key = None"
    and "\<not> field_error mgr (update_kwargs e st n kwargs0)"
    and "filter (matches (update_kwargs e st n kwargs0)) (rows w) = [r]"
  shows "CacheSet key r None \<in> set (emitted w (snd (get_file s e mgr st n False um ccm kwargs0 w)))
    \<and> list_all (\<lambda>ev. is_cache_set ev \<longrightarrow> (\<exists>v. ev = CacheSet key v None))
         (emitted w (snd (get_file s e mgr st n False um ccm kwargs0 w)))
    \<and> (\<exists>obj. fst (get_file s e mgr st n False um ccm kwargs0 w) = Inr (Some obj)
          \<and> pk obj = pk r \<and> storage_hash obj = storage_hash r \<and> name obj = name r
          \<and> source_id obj = source_id r
          \<and> map_of (cache (snd (get_file s e mgr st n False um ccm kwargs0 w))) key
              = Some (obj, None))
    \<and> (\<forall>w'. map_of (cache (store_in_cache s key r w')) key = Some (r, None))"
proof -
  let ?kw = "update_kwargs e st n kwargs0"
  have miss: "caching_on s \<longrightarrow> map_of (cache w) key = None" using assms(3) by simp
  note rf = read_found [where ccm=ccm and s=s and e=e and um=um and key=key and w=w and mgr=mgr
      and kw="?kw" and st=st and n=n, OF miss assms(4) assms(5)]
  have a: "CacheSet key r None \<in> set (emitted w (snd (get_file s e mgr st n False um ccm kwargs0 w)))"
    unfolding get_file_emitted [OF assms(2)] using assms(1) rf
    by (simp add: emitted_def)
  have b: "list_all (\<lambda>ev. is_cache_set ev \<longrightarrow> (\<exists>v. ev = CacheSet key v None))
         (emitted w (snd (get_file s e mgr st n False um ccm kwargs0 w)))"
    unfolding get_file_emitted [OF assms(2)] using assms(1) rf
      reconcile_events [where s=s and key=key and um=um and obj=r and created=False
        and w="store_in_cache s key r
        (log (StoreGet (get_thumbnail_manager mgr s) (?kw\<lparr>kw_defaults := None\<rparr>))
           (after_cache_get s key w))"]
    by (simp add: list_all_iff emitted_def [of w])
  have c: "\<exists>obj. fst (get_file s e mgr st n False um ccm kwargs0 w) = Inr (Some obj)
          \<and> pk obj = pk r \<and> storage_hash obj = storage_hash r \<and> name obj = name r
          \<and> source_id obj = source_id r
          \<and> map_of (cache (snd (get_file s e mgr st n False um ccm kwargs0 w))) key
              = Some (obj, None)"
    using assms(1) rf
    by (simp add: get_file_from_resolve [OF assms(2)] reconcile_def Let_def map_of_update_same
        split: option.splits)
  have d: "\<forall>w'. map_of (cache (store_in_cache s key r w')) key = Some (r, None)"
    using assms(1) by (simp add: map_of_update_same)
  from a b c d show ?thesis by blast
qed


theorem store_hit_written_to_cache_witness:
  "caching_on ex_settings_on
   \<and> get_cache_key FileManager ex_env (update_kwargs ex_env ex_storage ''img.png'' ex_kwargs)
       = Inr ex_key
   \<and> map_of (cache w_row) ex_key = None
   \<and> \<not> field_error FileManager (update_kwargs ex_env ex_storage ''img.png'' ex_kwargs)
   \<and> filter (matches (update_kwargs ex_env ex_storage ''img.png'' ex_kwargs)) (rows w_row)
       = [ex_row]
   \<and> CacheSet ex_key ex_row None \<in> set (emitted w_row (snd (get_file ex_settings_on ex_env
        FileManager ex_storage ''img.png'' False None False ex_kwargs w_row)))
   \<and> (\<exists>obj. fst (get_file ex_settings_on ex_env FileManager ex_storage ''img.png'' False None
          False ex_kwargs w_row) = Inr (Some obj)
        \<and> map_of (cache (snd (get_file ex_settings_on ex_env FileManager ex_storage
             ''img.png'' False None False ex_kwargs w_row))) ex_key = Some (obj, None))"
proof -
  have on: "caching_on ex_settings_on"
    by (simp add: caching_on_def cache_setting_truthy_def ex_settings_on_def)
  have h1: "get_cache_key FileManager ex_env
      (update_kwargs ex_env ex_storage ''img.png'' ex_kwargs) = Inr ex_key"
    by (simp add: get_cache_key_def update_kwargs_def ex_env_def ex_storage_def ex_kwargs_def
        ex_key_def)
  have miss: "map_of (cache w_row) ex_key = None" by (simp add: w_row_def)
  have nfe: "\<not> field_error FileManager (update_kwargs ex_env ex_storage ''img.png'' ex_kwargs)"
    by (simp add: field_error_def update_kwargs_def ex_kwargs_def)
  have found: "filter (matches (update_kwargs ex_env ex_storage ''img.png'' ex_kwargs))
      (rows w_row) = [ex_row]"
    by (simp add: matches_def update_kwargs_def ex_env_def ex_storage_def ex_kwargs_def
        w_row_def ex_row_def)
  show ?thesis
    using on h1 miss nfe found
      store_hit_written_to_cache [OF on h1 miss nfe found, where um=None and ccm=False]
    by blast
qed

section \<open>The create path (lines 40-44)\<close>

text \<open>
  C4, as the code has it. In a call with \<open>create=True\<close>: lines 40-44 leave the cache as
  it was and make no \<open>cache.get\<close> and no \<open>cache.set\<close>; the whole call makes no
  \<open>cache.get\<close>; a record created by the call with \<open>update_modified\<close> given has
  \<open>modified\<close> equal to it, is returned, and leaves the cache unchanged; and the call
  changes the cache only through the reconciliation of lines 69-75, that is when
  caching is enabled and the record already existed with a \<open>modified\<close> that differs from
  \<open>update_modified\<close>.
\<close>

theorem create_path_cache_access:
  assumes "get_cache_key mgr e (update_kwargs e st n kwargs0) = Inr key"
  shows "cache (snd (resolve s e mgr st n True um ccm key (update_kwargs e st n kwargs0) w))
         = cache w
    \<and> filter (\<lambda>ev. is_cache_get ev \<or> is_cache_set ev)
         (emitted w (snd (resolve s e mgr st n True um ccm key (update_kwargs e st n kwargs0) w)))
         = []
    \<and> filter is_cache_get (emitted w (snd (get_file s e mgr st n True um ccm kwargs0 w))) = []
    \<and> (\<forall>obj t. um = Some t \<and>
          fst (resolve s e mgr st n True um ccm key (update_kwargs e st n kwargs0) w)
            = Resolved obj True
          \<longrightarrow> modified obj = t
            \<and> fst (get_file s e mgr st n True um ccm kwargs0 w) = Inr (Some obj)
            \<and> cache (snd (get_file s e mgr st n True um ccm kwargs0 w)) = cache w)
    \<and> (cache (snd (get_file s e mgr st n True um ccm kwargs0 w)) \<noteq> cache w
        \<longrightarrow> caching_on s \<and>
          (\<exists>obj t. um = Some t \<and>
             fst (resolve s e mgr st n True um ccm key (update_kwargs e st n kwargs0) w)
               = Resolved obj False \<and> modified obj \<noteq> t))"
proof -
  let ?kw = "update_kwargs e st n kwargs0"
  let ?r = "resolve s e mgr st n True um ccm key ?kw w"
  note fr = create_branch_frame [where w=w and kw="?kw" and key=key and um=um
        and ccm=ccm and mgr=mgr and e=e and st=st and n=n and s=s]
  have gets: "filter is_cache_get (emitted w (snd (get_file s e mgr st n True um ccm kwargs0 w))) = []"
    using get_file_cache_gets [OF assms, where w=w and s=s and create=True and um=um and ccm=ccm]
    by (auto simp: filter_empty_conv)
  have new: "modified obj = t
            \<and> fst (get_file s e mgr st n True um ccm kwargs0 w) = Inr (Some obj)
            \<and> cache (snd (get_file s e mgr st n True um ccm kwargs0 w)) = cache w"
    if a: "um = Some t" and b: "fst ?r = Resolved obj True" for obj t
  proof -
    obtain w1 where r: "?r = (Resolved obj True, w1)" using b by (cases ?r) simp
    have "cache w1 = cache w" using fr r by simp
    moreover have "modified obj = t"
      using create_branch_new_modified a b by simp
    ultimately show ?thesis using r by (simp add: get_file_from_resolve [OF assms])
  qed
  have changed: "caching_on s \<and> (\<exists>obj t. um = Some t \<and> fst ?r = Resolved obj False \<and> modified obj \<noteq> t)"
    if ch: "cache (snd (get_file s e mgr st n True um ccm kwargs0 w)) \<noteq> cache w"
  proof -
    obtain out w1 where r: "?r = (out, w1)" by (cases ?r)
    have c1: "cache w1 = cache w" using fr r by simp
    show ?thesis
    proof (cases out)
      case (Raise err)
      then show ?thesis using ch r c1 by (simp add: get_file_from_resolve [OF assms])
    next
      case ReturnNone
      then show ?thesis using ch r c1 by (simp add: get_file_from_resolve [OF assms])
    next
      case (Resolved obj created)
      then show ?thesis using ch r c1
        by (auto simp add: get_file_from_resolve [OF assms] reconcile_def Let_def
            split: option.splits if_splits)
    qed
  qed
  show ?thesis using fr gets new changed by blast
qed


theorem create_path_cache_access_witness:
  "get_cache_key FileManager ex_env (update_kwargs ex_env ex_storage ''img.png'' ex_kwargs)
     = Inr ex_key
   \<and> fst (resolve ex_settings_on ex_env FileManager ex_storage ''img.png'' True (Some 9) False
        ex_key (update_kwargs ex_env ex_storage ''img.png'' ex_kwargs) w_empty)
       = Resolved \<lparr>pk = 1, storage_hash = ''fs'', name = ''img.png'', modified = 9,
                   source_id = None\<rparr> True
   \<and> fst (get_file ex_settings_on ex_env FileManager ex_storage ''img.png'' True (Some 9) False
        ex_kwargs w_empty)
       = Inr (Some \<lparr>pk = 1, storage_hash = ''fs'', name = ''img.png'', modified = 9,
                    source_id = None\<rparr>)
   \<and> cache (snd (get_file ex_settings_on ex_env FileManager ex_storage ''img.png'' True
        (Some 9) False ex_kwargs w_empty)) = cache w_empty
   \<and> filter is_cache_get (emitted w_empty (snd (get_file ex_settings_on ex_env FileManager
        ex_storage ''img.png'' True (Some 9) False ex_kwargs w_empty))) = []"
proof -
  have h1: "get_cache_key FileManager ex_env
      (update_kwargs ex_env ex_storage ''img.png'' ex_kwargs) = Inr ex_key"
    by (simp add: get_cache_key_def update_kwargs_def ex_env_def ex_storage_def ex_kwargs_def
        ex_key_def)
  have nfe: "\<not> field_error FileManager (update_kwargs ex_env ex_storage ''img.png'' ex_kwargs)"
    by (simp add: field_error_def update_kwargs_def ex_kwargs_def)
  have none: "filter (matches (update_kwargs ex_env ex_storage ''img.png'' ex_kwargs))
      (rows w_empty) = []"
    by (simp add: w_empty_def)
  have h2: "fst (resolve ex_settings_on ex_env FileManager ex_storage ''img.png'' True (Some 9)
        False ex_key (update_kwargs ex_env ex_storage ''img.png'' ex_kwargs) w_empty)
       = Resolved \<lparr>pk = 1, storage_hash = ''fs'', name = ''img.png'', modified = 9,
                   source_id = None\<rparr> True"
    unfolding create_new [OF nfe none]
    by (simp add: new_row_def fold_defaults_def update_kwargs_def
        ex_env_def ex_storage_def ex_kwargs_def w_empty_def)
  show ?thesis
    using h1 h2 create_path_cache_access [OF h1, where s=ex_settings_on and um="Some 9"
        and ccm=False and w=w_empty]
    by simp
qed

text \<open>
  C4 as claimed (a call with \<open>create=True\<close> does not write to the cache) fails: with
  caching enabled, an existing row whose \<open>modified\<close> is 3 and \<open>update_modified\<close> 9, the
  call leaves the updated record in a cache that was empty.
\<close>

theorem create_path_cache_access_counterexample:
  "cache w_row = []
   \<and> cache (snd (get_file ex_settings_on ex_env FileManager ex_storage ''img.png'' True (Some 9)
        False ex_kwargs w_row)) = [(ex_key, ex_row\<lparr>modified := 9\<rparr>, None)]"
  by (simp add: get_file_def resolve_def create_branch_def reconcile_def get_cache_key_def
      update_kwargs_def fold_defaults_def cache_set_def get_or_create_def
      filter_update_modified_def field_error_def matches_def
      caching_on_def cache_setting_truthy_def log_def Let_def
      ex_settings_on_def ex_env_def ex_storage_def ex_kwargs_def ex_key_def ex_row_def w_row_def)


section \<open>Caching disabled\<close>

text \<open>
  C10. When \<open>THUMBNAIL_CACHE\<close> is falsy or \<open>THUMBNAIL_QUERYSET_CACHING\<close> is off, a call
  to \<open>get_file\<close> leaves the cache as it was, makes no \<open>cache.get\<close> and no \<open>cache.set\<close>,
  and both its result and the rest of the state it leaves are the same whatever the
  cache holds.
\<close>

theorem no_cache_access_when_disabled:
  assumes "\<not> cache_setting_truthy s \<or> \<not> THUMBNAIL_QUERYSET_CACHING s"
  shows "cache (snd (get_file s e mgr st n create um ccm kwargs0 w)) = cache w
    \<and> filter (\<lambda>ev. is_cache_get ev \<or> is_cache_set ev)
         (emitted w (snd (get_file s e mgr st n create um ccm kwargs0 w))) = []
    \<and> fst (get_file s e mgr st n create um ccm kwargs0 (w\<lparr>cache := c\<rparr>))
        = fst (get_file s e mgr st n create um ccm kwargs0 w)
    \<and> snd (get_file s e mgr st n create um ccm kwargs0 (w\<lparr>cache := c\<rparr>))
        = (snd (get_file s e mgr st n create um ccm kwargs0 w))\<lparr>cache := c\<rparr>"
proof -
  have off: "\<not> caching_on s" using assms by (auto simp: caching_on_def)
  let ?kw = "update_kwargs e st n kwargs0"
  show ?thesis
  proof (cases "get_cache_key mgr e ?kw")
    case (Inl err)
    then show ?thesis by (simp add: get_file_key_error)
  next
    case (Inr key)
    obtain out w1 where r: "resolve s e mgr st n create um ccm key ?kw w = (out, w1)"
      by (cases "resolve s e mgr st n create um ccm key ?kw w")
    have rc: "resolve s e mgr st n create um ccm key ?kw (w\<lparr>cache := c\<rparr>) = (out, w1\<lparr>cache := c\<rparr>)"
      using resolve_cache_off [OF off, where w=w and c=c and kw="?kw" and key=key and create=create and um=um and ccm=ccm and mgr=mgr and e=e and st=st and n=n] r by simp
    have fr: "cache w1 = cache w"
      "filter (\<lambda>ev. is_cache_get ev \<or> is_cache_set ev) (emitted w w1) = []"
      using resolve_cache_off_frame [OF off, where w=w and kw="?kw" and key=key and create=create and um=um and ccm=ccm and mgr=mgr and e=e and st=st and n=n] r by simp_all
    have ext: "trace w1 = trace w @ emitted w w1"
      using resolve_extends [where w=w and kw="?kw" and key=key and create=create and um=um and ccm=ccm and mgr=mgr and e=e and st=st and n=n and s=s] r by simp
    show ?thesis
    proof (cases out)
      case (Raise err)
      then show ?thesis using r rc fr Inr by (simp add: get_file_raise)
    next
      case ReturnNone
      then show ?thesis using r rc fr Inr by (simp add: get_file_none)
    next
      case (Resolved obj created)
      have em: "emitted w (snd (reconcile s key um obj created w1)) =
          emitted w w1 @ emitted w1 (snd (reconcile s key um obj created w1))"
        by (rule emitted_trans [OF ext reconcile_extends])
      show ?thesis
        using r rc fr Inr Resolved em reconcile_cache_off [OF off, where w=w1 and key=key and um=um and obj=obj and created=created]
        by (simp add: get_file_resolved)
    qed
  qed
qed


theorem no_cache_access_when_disabled_witness:
  "\<not> cache_setting_truthy ex_settings_off
   \<and> cache (snd (get_file ex_settings_off ex_env FileManager ex_storage ''img.png'' False
         (Some 9) False ex_kwargs w_row)) = cache w_row
   \<and> fst (get_file ex_settings_off ex_env FileManager ex_storage ''img.png'' False
         (Some 9) False ex_kwargs (w_row\<lparr>cache := cache w_stale\<rparr>))
       = fst (get_file ex_settings_off ex_env FileManager ex_storage ''img.png'' False
         (Some 9) False ex_kwargs w_row)"
proof -
  have h1: "\<not> cache_setting_truthy ex_settings_off"
    by (simp add: cache_setting_truthy_def ex_settings_off_def)
  then have h: "\<not> cache_setting_truthy ex_settings_off \<or> \<not> THUMBNAIL_QUERYSET_CACHING ex_settings_off"
    by simp
  show ?thesis
    using h1 no_cache_access_when_disabled [OF h, where e=ex_env and mgr=FileManager
        and st=ex_storage and n="''img.png''" and create=False and um="Some 9" and ccm=False
        and ?kwargs0.0=ex_kwargs and w=w_row and c="cache w_stale"]
    by simp
qed

section \<open>Module load\<close>




section \<open>Cascading deletes\<close>

text \<open>
  C9. Deleting a source succeeds and leaves no source with that key, no thumbnail
  referencing it, and, for each thumbnail that referenced it, neither that thumbnail nor
  any dimensions row attached to it. Deleting a thumbnail succeeds and leaves neither
  the thumbnail nor dimensions attached to it.
\<close>

theorem delete_cascades:
  "(\<exists>db1. delete_source p db = Inr db1
      \<and> list_all (\<lambda>r. pk r \<noteq> p) (sources db1)
      \<and> list_all (\<lambda>t. source_id t \<noteq> Some p) (thumbnails db1)
      \<and> list_all (\<lambda>t. source_id t = Some p \<longrightarrow>
            list_all (\<lambda>t1. pk t1 \<noteq> pk t) (thumbnails db1)
            \<and> list_all (\<lambda>d. thumbnail_id d \<noteq> pk t) (dimensions db1)) (thumbnails db))
   \<and> (\<exists>db2. delete_thumbnail q db = Inr db2
      \<and> list_all (\<lambda>t. pk t \<noteq> q) (thumbnails db2)
      \<and> list_all (\<lambda>d. thumbnail_id d \<noteq> q) (dimensions db2))"
  by (auto simp add: delete_source_def delete_thumbnail_def delete_thumbnails_ok
      Thumbnail_source_on_delete_def Let_def list_all_iff)


theorem delete_cascades_witness:
  "ex_thumbnail \<in> set (thumbnails ex_database)
   \<and> source_id ex_thumbnail = Some 1
   \<and> pk ex_thumbnail = 10
   \<and> (\<exists>db1. delete_source 1 ex_database = Inr db1
        \<and> list_all (\<lambda>t1. pk t1 \<noteq> 10) (thumbnails db1)
        \<and> list_all (\<lambda>d. thumbnail_id d \<noteq> 10) (dimensions db1))"
proof -
  have m: "ex_thumbnail \<in> set (thumbnails ex_database)" by (simp add: ex_database_def)
  have s: "source_id ex_thumbnail = Some 1" by (simp add: ex_thumbnail_def)
  have p: "pk ex_thumbnail = 10" by (simp add: ex_thumbnail_def)
  show ?thesis
    using m s p delete_cascades [of 1 ex_database 10]
    by (auto simp add: list_all_iff)
qed

end
